theory Spec2Isabelle
  imports Main
begin

text \<open>
  A model of the class \<open>SIEBanxico\<close> (\<open>sie_banxico.py\<close>): a client of the SIE API of
  Banco de Mexico that holds a token, a series selector and a language, builds
  request URLs and parameters, performs an HTTP GET and returns the decoded body.
  Methods are functions on the record of the object's attributes; an exception is a
  value of the type \<open>error\<close>; the HTTP library is a parameter.
\<close>

section \<open>Python values and errors\<close>

text \<open>
  The arguments a caller can pass to the methods of \<open>SIEBanxico\<close> are untyped Python
  objects. The universe below holds the types the checks of the class tell apart:
  \<open>None\<close>, \<open>bool\<close>, \<open>int\<close>, \<open>str\<close>, \<open>list\<close> and (as a sequence that is not a
  list) \<open>tuple\<close>.
\<close>

datatype pyval =
    PNone
  | PBool bool
  | PInt int
  | PStr string
  | PList "pyval list"
  | PTuple "pyval list"

text \<open>The exceptions the class raises, each with its message.\<close>

datatype error =
    TypeError string
  | ValueError string
  | RequestException string

fun type_name :: "pyval \<Rightarrow> string" where
  "type_name PNone = ''NoneType''"
| "type_name (PBool b) = ''bool''"
| "type_name (PInt i) = ''int''"
| "type_name (PStr s) = ''str''"
| "type_name (PList xs) = ''list''"
| "type_name (PTuple xs) = ''tuple''"

fun is_type_error :: "error + 'a \<Rightarrow> bool" where
  "is_type_error (Inl (TypeError m)) = True"
| "is_type_error r = False"

fun is_value_error :: "error + 'a \<Rightarrow> bool" where
  "is_value_error (Inl (ValueError m)) = True"
| "is_value_error r = False"

fun is_request_error :: "error + 'a \<Rightarrow> bool" where
  "is_request_error (Inl (RequestException m)) = True"
| "is_request_error r = False"

subsection \<open>Decimal rendering of integers (\<open>str(int)\<close>, as an f-string does)\<close>

definition digit_char :: "nat \<Rightarrow> char" where
  "digit_char d = char_of (48 + d)"

function str_nat :: "nat \<Rightarrow> string" where
  "str_nat n = (if n < 10 then [digit_char n] else str_nat (n div 10) @ [digit_char (n mod 10)])"
  by pat_completeness auto
termination
  by (relation "measure id") auto

declare str_nat.simps [simp del]

definition str_int :: "int \<Rightarrow> string" where
  "str_int i = (if i < 0 then CHR ''-'' # str_nat (nat (- i)) else str_nat (nat i))"

definition quoted :: "string \<Rightarrow> string" where
  "quoted s = CHR 0x27 # s @ [CHR 0x27]"

subsection \<open>\<open>sep.join(items)\<close>\<close>

text \<open>
  \<open>str.join\<close> walks the list and raises \<open>TypeError\<close> at the first item that is not a
  \<open>str\<close>, naming its index and type; otherwise it puts the separator between
  consecutive items.
\<close>

fun join_items :: "nat \<Rightarrow> pyval list \<Rightarrow> error + string list" where
  "join_items i [] = Inr []"
| "join_items i (PStr s # xs) =
     (case join_items (Suc i) xs of Inl e \<Rightarrow> Inl e | Inr ss \<Rightarrow> Inr (s # ss))"
| "join_items i (x # xs) =
     Inl (TypeError (''sequence item '' @ str_nat i @ '': expected str instance, ''
                     @ type_name x @ '' found''))"

fun str_join :: "string \<Rightarrow> string list \<Rightarrow> string" where
  "str_join sep [] = []"
| "str_join sep [s] = s"
| "str_join sep (s # t # ss) = s @ sep @ str_join sep (t # ss)"

definition py_join :: "string \<Rightarrow> pyval list \<Rightarrow> error + string" where
  "py_join sep xs = (case join_items 0 xs of Inl e \<Rightarrow> Inl e | Inr ss \<Rightarrow> Inr (str_join sep ss))"

section \<open>The client object\<close>

text \<open>
  The attributes of a \<open>SIEBanxico\<close> object. \<open>token\<close> and \<open>series\<close> hold \<open>None\<close>
  (the value \<open>__init__\<close> assigns first) or a \<open>str\<close>: every assignment in the class
  stores one of the two. \<open>headers\<close> is the dictionary built once by \<open>__init__\<close>;
  \<open>params\<close> is the dictionary the fetch methods mutate in place; \<open>language\<close> is
  stored before it is validated, so it is any value.
\<close>

record client =
  token :: "string option"
  series :: "string option"
  url :: string
  headers :: "string \<rightharpoonup> string option"
  params :: "string \<rightharpoonup> pyval"
  language :: pyval

text \<open>
  A method that returns \<open>None\<close> or raises: the result, and the object as the call
  leaves it (also when it raises).
\<close>

type_synonym 'a action = "client \<Rightarrow> (error + 'a) \<times> client"

definition set_token :: "pyval \<Rightarrow> unit action" where
  "set_token tok c =
     (case tok of
        PStr s \<Rightarrow> (Inr (), c\<lparr>token := Some s\<rparr>)
      | _ \<Rightarrow> (Inl (TypeError ''\"token\" must be a string.''), c))"

definition set_id_series :: "pyval \<Rightarrow> unit action" where
  "set_id_series id_series c =
     (case id_series of
        PList xs \<Rightarrow>
          (case py_join '','' xs of
             Inl e \<Rightarrow> (Inl e, c)
           | Inr s \<Rightarrow> (Inr (), c\<lparr>series := Some s\<rparr>))
      | PStr s \<Rightarrow> (Inr (), c\<lparr>series := Some s\<rparr>)
      | _ \<Rightarrow> (Inl (TypeError ''\"id_series\" must be a list with strings or a single string.''), c))"

text \<open>
  \<open>self.series += ',' + ','.join(id_series)\<close>: the right-hand side is evaluated
  first (the join may raise), then the in-place addition, which raises when
  \<open>self.series\<close> is still \<open>None\<close>; only then is the attribute assigned.
\<close>

definition append_id_series :: "pyval \<Rightarrow> unit action" where
  "append_id_series id_series c =
     (case id_series of
        PList xs \<Rightarrow>
          (case py_join '','' xs of
             Inl e \<Rightarrow> (Inl e, c)
           | Inr s \<Rightarrow>
               (case series c of
                  None \<Rightarrow>
                    (Inl (TypeError (''unsupported operand type(s) for +=: '' @ quoted ''NoneType''
                                      @ '' and '' @ quoted ''str'')), c)
                | Some old \<Rightarrow> (Inr (), c\<lparr>series := Some (old @ '','' @ s)\<rparr>)))
      | _ \<Rightarrow> (Inl (TypeError ''\"id_series\" must be a list with strings.''), c))"

definition set_language :: "unit action" where
  "set_language c =
     (case language c of
        PStr s \<Rightarrow>
          (if s = ''en'' \<or> s = ''es''
           then (Inr (), c\<lparr>params := (params c)(''locale'' \<mapsto> PStr s)\<rparr>)
           else (Inl (ValueError (''\"'' @ s
                   @ ''\" is not defined.\<newline>Try \"en\" for english or \"es\" for spanish.'')), c))
      | _ \<Rightarrow> (Inl (TypeError ''\"language\" must be a string.''), c))"

text \<open>
  \<open>__set_pct_change\<close>: a value that is neither \<open>None\<close> nor a \<open>str\<close> raises
  \<open>TypeError\<close>; a value outside the list of the four accepted ones (so, a \<open>str\<close>)
  raises \<open>ValueError\<close>, its message quoting that string; otherwise the value is stored
  under \<open>incremento\<close>.
\<close>

definition set_pct_change :: "pyval \<Rightarrow> unit action" where
  "set_pct_change pct_change c =
     (case pct_change of
        PNone \<Rightarrow> (Inr (), c\<lparr>params := (params c)(''incremento'' \<mapsto> pct_change)\<rparr>)
      | PStr s \<Rightarrow>
          (if s \<in> set [''PorcObsAnt'', ''PorcAnual'', ''PorcAcumAnual'']
           then (Inr (), c\<lparr>params := (params c)(''incremento'' \<mapsto> pct_change)\<rparr>)
           else (Inl (ValueError (''\"'' @ s
                   @ ''\" is not defined.\<newline>Try None for levels, \"PorcObsAnt\" for change rate compared to the previous observation, \"PorcAnual\" for anual change rate, \"PorcAcumAnual\" for annual acummulated change rate.'')), c))
      | _ \<Rightarrow> (Inl (TypeError ''\"pct_change\" must be None or a string.''), c))"

text \<open>
  \<open>__init__\<close>. The object starts without attributes; \<open>blank\<close> stands for it, and
  none of its fields is read before \<open>__init__\<close> has assigned it. A constructor that
  raises returns no object.
\<close>

definition blank :: client where
  "blank = \<lparr>token = None, series = None, url = [], headers = Map.empty,
             params = Map.empty, language = PNone\<rparr>"

definition init :: "pyval \<Rightarrow> pyval \<Rightarrow> pyval \<Rightarrow> error + client" where
  "init tok id_series lang =
     (case set_token tok (blank\<lparr>token := None\<rparr>) of
        (Inl e, c1) \<Rightarrow> Inl e
      | (Inr u, c1) \<Rightarrow>
          (case set_id_series id_series (c1\<lparr>series := None\<rparr>) of
             (Inl e, c2) \<Rightarrow> Inl e
           | (Inr u, c2) \<Rightarrow>
               (case set_language
                       (c2\<lparr>url := ''https://www.banxico.org.mx/SieAPIRest/service/v1/series/'',
                           headers := [''Bmx-Token'' \<mapsto> token c2],
                           params := Map.empty,
                           language := lang\<rparr>) of
                  (Inl e, c3) \<Rightarrow> Inl e
                | (Inr u, c3) \<Rightarrow> Inr c3)))"

section \<open>The fetch methods\<close>

text \<open>
  \<open>requests.get(url, headers = ..., params = ...)\<close> is a black box: a function from
  the request to an exception or a response. Of a response the class reads
  \<open>status_code\<close> and \<open>json()\<close>, which returns the parsed body or raises.
\<close>

record request =
  req_url :: string
  req_headers :: "string \<rightharpoonup> string option"
  req_params :: "string \<rightharpoonup> pyval"

record 'j response =
  status_code :: int
  json :: "error + 'j"

type_synonym 'j transport = "request \<Rightarrow> error + 'j response"

text \<open>
  What a fetch call leaves: its result, the object, and the requests handed to the
  transport during the call, in order.
\<close>

record 'j outcome =
  result :: "error + 'j"
  state :: client
  sent :: "request list"

text \<open>\<open>str + None\<close>, reached only when \<open>series\<close> was never set.\<close>

definition concat_error :: error where
  "concat_error = TypeError ''can only concatenate str (not \"NoneType\") to str''"

definition status_message :: string where
  "status_message =
     ''Something go wrong with the request. Review the token or series id.\<newline>Status code: ''"

definition status_message_range :: string where
  "status_message_range =
     ''Something go wrong with the request. Review the token, series id or date format.\<newline>Status code: ''"

definition get_metadata :: "'j transport \<Rightarrow> client \<Rightarrow> 'j outcome" where
  "get_metadata requests_get c =
     (case set_pct_change PNone c of
        (Inl e, c1) \<Rightarrow> \<lparr>result = Inl e, state = c1, sent = []\<rparr>
      | (Inr u, c1) \<Rightarrow>
          (case series c1 of
             None \<Rightarrow> \<lparr>result = Inl concat_error, state = c1, sent = []\<rparr>
           | Some sel \<Rightarrow>
               (let url_metadata = url c1 @ sel;
                    req = \<lparr>req_url = url_metadata, req_headers = headers c1,
                           req_params = params c1\<rparr>
                in case requests_get req of
                     Inl e \<Rightarrow> \<lparr>result = Inl e, state = c1, sent = [req]\<rparr>
                   | Inr response \<Rightarrow>
                       if status_code response \<noteq> 200
                       then \<lparr>result = Inl (RequestException
                                 (status_message @ str_int (status_code response))),
                             state = c1, sent = [req]\<rparr>
                       else \<lparr>result = json response, state = c1, sent = [req]\<rparr>)))"

definition get_lastdata :: "'j transport \<Rightarrow> pyval \<Rightarrow> client \<Rightarrow> 'j outcome" where
  "get_lastdata requests_get pct_change c =
     (case set_pct_change pct_change c of
        (Inl e, c1) \<Rightarrow> \<lparr>result = Inl e, state = c1, sent = []\<rparr>
      | (Inr u, c1) \<Rightarrow>
          (case series c1 of
             None \<Rightarrow> \<lparr>result = Inl concat_error, state = c1, sent = []\<rparr>
           | Some sel \<Rightarrow>
               (let url_lastdata = url c1 @ sel @ ''/datos/oportuno'';
                    req = \<lparr>req_url = url_lastdata, req_headers = headers c1,
                           req_params = params c1\<rparr>
                in case requests_get req of
                     Inl e \<Rightarrow> \<lparr>result = Inl e, state = c1, sent = [req]\<rparr>
                   | Inr response \<Rightarrow>
                       if status_code response \<noteq> 200
                       then \<lparr>result = Inl (RequestException
                                 (status_message @ str_int (status_code response))),
                             state = c1, sent = [req]\<rparr>
                       else \<lparr>result = json response, state = c1, sent = [req]\<rparr>)))"

definition get_timeseries :: "'j transport \<Rightarrow> pyval \<Rightarrow> client \<Rightarrow> 'j outcome" where
  "get_timeseries requests_get pct_change c =
     (case set_pct_change pct_change c of
        (Inl e, c1) \<Rightarrow> \<lparr>result = Inl e, state = c1, sent = []\<rparr>
      | (Inr u, c1) \<Rightarrow>
          (case series c1 of
             None \<Rightarrow> \<lparr>result = Inl concat_error, state = c1, sent = []\<rparr>
           | Some sel \<Rightarrow>
               (let url_timeseries = url c1 @ sel @ ''/datos'';
                    req = \<lparr>req_url = url_timeseries, req_headers = headers c1,
                           req_params = params c1\<rparr>
                in case requests_get req of
                     Inl e \<Rightarrow> \<lparr>result = Inl e, state = c1, sent = [req]\<rparr>
                   | Inr response \<Rightarrow>
                       if status_code response \<noteq> 200
                       then \<lparr>result = Inl (RequestException
                                 (status_message @ str_int (status_code response))),
                             state = c1, sent = [req]\<rparr>
                       else \<lparr>result = json response, state = c1, sent = [req]\<rparr>)))"

text \<open>
  \<open>get_timeseries_range\<close> checks the two dates after \<open>__set_pct_change\<close> has run and
  before the URL is built.
\<close>

fun date_strings :: "pyval \<Rightarrow> pyval \<Rightarrow> (string \<times> string) option" where
  "date_strings (PStr a) (PStr b) = Some (a, b)"
| "date_strings x y = None"

definition get_timeseries_range ::
  "'j transport \<Rightarrow> pyval \<Rightarrow> pyval \<Rightarrow> pyval \<Rightarrow> client \<Rightarrow> 'j outcome" where
  "get_timeseries_range requests_get init_date end_date pct_change c =
     (case set_pct_change pct_change c of
        (Inl e, c1) \<Rightarrow> \<lparr>result = Inl e, state = c1, sent = []\<rparr>
      | (Inr u, c1) \<Rightarrow>
          (case date_strings init_date end_date of
             None \<Rightarrow>
               \<lparr>result = Inl (TypeError
                   ''\"init_date\" and \"end_date\" must be a string in the format yyyy-mm-dd''),
                state = c1, sent = []\<rparr>
           | Some (init_s, end_s) \<Rightarrow>
               (case series c1 of
                  None \<Rightarrow> \<lparr>result = Inl concat_error, state = c1, sent = []\<rparr>
                | Some sel \<Rightarrow>
                    (let url_timeseries_range =
                           url c1 @ sel @ ''/datos/'' @ init_s @ ''/'' @ end_s;
                         req = \<lparr>req_url = url_timeseries_range, req_headers = headers c1,
                                req_params = params c1\<rparr>
                     in case requests_get req of
                          Inl e \<Rightarrow> \<lparr>result = Inl e, state = c1, sent = [req]\<rparr>
                        | Inr response \<Rightarrow>
                            if status_code response \<noteq> 200
                            then \<lparr>result = Inl (RequestException
                                      (status_message_range @ str_int (status_code response))),
                                  state = c1, sent = [req]\<rparr>
                            else \<lparr>result = json response, state = c1, sent = [req]\<rparr>))))"

text \<open>A transport that answers every request with the same response (a mock).\<close>

definition mock_transport :: "'j response \<Rightarrow> 'j transport" where
  "mock_transport r req = Inr r"

section \<open>Predicates used in the statements\<close>

fun is_str :: "pyval \<Rightarrow> bool" where
  "is_str (PStr s) = True"
| "is_str v = False"

fun is_list :: "pyval \<Rightarrow> bool" where
  "is_list (PList xs) = True"
| "is_list v = False"

text \<open>An argument \<open>id_series\<close> that \<open>set_id_series\<close> accepts: a string, or a list of strings.\<close>

fun valid_ids :: "pyval \<Rightarrow> bool" where
  "valid_ids (PStr s) = True"
| "valid_ids (PList xs) = list_all is_str xs"
| "valid_ids v = False"

text \<open>The four accepted values of \<open>pct_change\<close>.\<close>

definition valid_pct :: "pyval \<Rightarrow> bool" where
  "valid_pct v = (v \<in> set [PNone, PStr ''PorcObsAnt'', PStr ''PorcAnual'', PStr ''PorcAcumAnual''])"

text \<open>The base URL, as the specification gives it.\<close>

definition base_url :: string where
  "base_url = ''https://www.banxico.org.mx/SieAPIRest/service/v1/series/''"

text \<open>
  The invariant of the params mapping: \<open>locale\<close> is present and is \<open>en\<close> or \<open>es\<close>;
  \<open>incremento\<close> is absent, or holds \<open>None\<close> or one of the three change modes.
\<close>

definition params_inv :: "(string \<rightharpoonup> pyval) \<Rightarrow> bool" where
  "params_inv p =
     (p ''locale'' \<in> set [Some (PStr ''en''), Some (PStr ''es'')] \<and>
      p ''incremento'' \<in> set [None, Some PNone, Some (PStr ''PorcObsAnt''),
                               Some (PStr ''PorcAnual''), Some (PStr ''PorcAcumAnual'')])"

text \<open>
  What construction establishes and no method changes: the URL is the base URL and a
  selector is stored.
\<close>

definition ready :: "client \<Rightarrow> bool" where
  "ready c = (url c = base_url \<and> series c \<noteq> None)"

text \<open>
  \<open>stores_pct out c v\<close>: the call that started on \<open>c\<close> and left \<open>out\<close> has written
  \<open>v\<close> under \<open>incremento\<close> (whatever was there), and every request it sent carries
  the params mapping with that entry. \<open>rejected out c\<close>: the call sent no request and
  left the object as it was.
\<close>

definition stores_pct :: "'j outcome \<Rightarrow> client \<Rightarrow> pyval \<Rightarrow> bool" where
  "stores_pct out c v =
     (params (state out) = (params c)(''incremento'' \<mapsto> v) \<and>
      list_all (\<lambda>r. req_params r = (params c)(''incremento'' \<mapsto> v)) (sent out))"

definition rejected :: "'j outcome \<Rightarrow> client \<Rightarrow> bool" where
  "rejected out c = (sent out = [] \<and> state out = c)"

text \<open>
  The result the status check is to give for a response: the parsed body at status
  200, the request error with the status code appended to the message otherwise.
\<close>

definition checked_result :: "string \<Rightarrow> 'j response \<Rightarrow> error + 'j" where
  "checked_result msg resp =
     (if status_code resp = 200 then json resp
      else Inl (RequestException (msg @ str_int (status_code resp))))"

text \<open>A 2xx status, as the specification words the success condition.\<close>

definition is_2xx :: "int \<Rightarrow> bool" where
  "is_2xx s = (200 \<le> s \<and> s < 300)"

text \<open>
  A client built by \<open>SIEBanxico('old', ['A'], 'en')\<close>, the same client after
  \<open>set_token('new')\<close>, and a mocked transport answering status 200 with an empty body.
\<close>

definition demo_client :: client where
  "demo_client = projr (init (PStr ''old'') (PList [PStr ''A'']) (PStr ''en''))"

definition demo_client_new_token :: client where
  "demo_client_new_token = snd (set_token (PStr ''new'') demo_client)"

definition demo_transport :: "unit transport" where
  "demo_transport = mock_transport \<lparr>status_code = 200, json = Inr ()\<rparr>"

definition created_transport :: "unit transport" where
  "created_transport = mock_transport \<lparr>status_code = 201, json = Inr ()\<rparr>"

definition not_found_transport :: "unit transport" where
  "not_found_transport = mock_transport \<lparr>status_code = 404, json = Inr ()\<rparr>"

section \<open>Auxiliary facts\<close>

subsection \<open>Errors, joins and the private setters\<close>

lemma is_type_error_Inl: "is_type_error (Inl e) \<longleftrightarrow> (\<exists>m. e = TypeError m)"
  by (cases e) simp_all

lemma is_value_error_Inl: "is_value_error (Inl e) \<longleftrightarrow> (\<exists>m. e = ValueError m)"
  by (cases e) simp_all

lemma join_items_strs: "join_items i (map PStr ids) = Inr ids"
  by (induction ids arbitrary: i) simp_all

lemma py_join_strs: "py_join sep (map PStr ids) = Inr (str_join sep ids)"
  by (simp add: py_join_def join_items_strs)

lemma join_items_bad:
  "\<not> list_all is_str xs \<Longrightarrow> is_type_error (join_items i xs)"
proof (induction i xs rule: join_items.induct)
  case (1 i)
  then show ?case by simp
next
  case (2 i s xs)
  then show ?case by (cases "join_items (Suc i) xs") auto
qed simp_all

lemma py_join_bad: "\<not> list_all is_str xs \<Longrightarrow> is_type_error (py_join sep xs)"
  using join_items_bad [of xs 0]
  by (cases "join_items 0 xs") (auto simp: py_join_def is_type_error_Inl)

lemma valid_pct_cases:
  "valid_pct v \<longleftrightarrow> v = PNone \<or> v = PStr ''PorcObsAnt'' \<or> v = PStr ''PorcAnual'' \<or> v = PStr ''PorcAcumAnual''"
  by (auto simp: valid_pct_def)

lemma set_pct_change_valid:
  "valid_pct v \<Longrightarrow> set_pct_change v c = (Inr (), c\<lparr>params := (params c)(''incremento'' \<mapsto> v)\<rparr>)"
  by (auto simp: valid_pct_cases set_pct_change_def)

lemma set_pct_change_bad_string:
  "is_str v \<Longrightarrow> \<not> valid_pct v \<Longrightarrow>
     is_value_error (fst (set_pct_change v c)) \<and> snd (set_pct_change v c) = c"
  by (cases v) (auto simp: valid_pct_cases set_pct_change_def)

lemma set_pct_change_not_string:
  "\<not> is_str v \<Longrightarrow> v \<noteq> PNone \<Longrightarrow>
     is_type_error (fst (set_pct_change v c)) \<and> snd (set_pct_change v c) = c"
  by (cases v) (auto simp: set_pct_change_def)

lemma set_pct_change_invalid:
  "\<not> valid_pct v \<Longrightarrow> \<exists>e. set_pct_change v c = (Inl e, c)"
  by (cases v) (auto simp: valid_pct_cases set_pct_change_def)

subsection \<open>The public setters and the constructor\<close>

lemma set_id_series_strs:
  "set_id_series (PList (map PStr ids)) c = (Inr (), c\<lparr>series := Some (str_join '','' ids)\<rparr>)"
  by (simp add: set_id_series_def py_join_strs)

lemma set_id_series_str:
  "set_id_series (PStr s) c = (Inr (), c\<lparr>series := Some s\<rparr>)"
  by (simp add: set_id_series_def)

lemma set_id_series_other:
  "\<not> is_str v \<Longrightarrow> \<not> is_list v \<Longrightarrow>
     is_type_error (fst (set_id_series v c)) \<and> snd (set_id_series v c) = c"
  by (cases v) (simp_all add: set_id_series_def)

lemma set_id_series_bad_list:
  "\<not> list_all is_str xs \<Longrightarrow>
     is_type_error (fst (set_id_series (PList xs) c)) \<and> snd (set_id_series (PList xs) c) = c"
  using py_join_bad [of xs "'',''"]
  by (cases "py_join '','' xs") (auto simp: set_id_series_def is_type_error_Inl)

lemma append_id_series_bad_list:
  "\<not> list_all is_str xs \<Longrightarrow>
     is_type_error (fst (append_id_series (PList xs) c)) \<and> snd (append_id_series (PList xs) c) = c"
  using py_join_bad [of xs "'',''"]
  by (cases "py_join '','' xs") (auto simp: append_id_series_def is_type_error_Inl)

lemma append_id_series_strs:
  "series c = Some old \<Longrightarrow>
     append_id_series (PList (map PStr ids)) c
       = (Inr (), c\<lparr>series := Some (old @ '','' @ str_join '','' ids)\<rparr>)"
  by (simp add: append_id_series_def py_join_strs)

lemma append_id_series_not_list:
  "\<not> is_list v \<Longrightarrow>
     is_type_error (fst (append_id_series v c)) \<and> snd (append_id_series v c) = c"
  by (cases v) (simp_all add: append_id_series_def)

lemma set_token_str: "set_token (PStr t) c = (Inr (), c\<lparr>token := Some t\<rparr>)"
  by (simp add: set_token_def)

lemma all_strs_map: "list_all is_str xs \<Longrightarrow> \<exists>ids. xs = map PStr ids"
proof (induction xs)
  case Nil
  then show ?case by simp
next
  case (Cons x xs)
  then obtain ids where "xs = map PStr ids" by auto
  moreover from Cons.prems obtain s where "x = PStr s" by (cases x) auto
  ultimately have "x # xs = map PStr (s # ids)" by simp
  then show ?case by (intro exI)
qed

lemma set_id_series_valid:
  "valid_ids ids \<Longrightarrow> \<exists>sel. \<forall>c. set_id_series ids c = (Inr (), c\<lparr>series := Some sel\<rparr>)"
proof (cases ids)
  case (PList xs)
  assume "valid_ids ids"
  with PList obtain ss where "xs = map PStr ss" using all_strs_map by auto
  with PList show ?thesis by (auto simp: set_id_series_strs)
qed (auto simp: set_id_series_def)

lemma init_form:
  "init tok ids lang = Inr c \<Longrightarrow>
     \<exists>t sel l. (l = ''en'' \<or> l = ''es'') \<and>
       c = \<lparr>token = Some t, series = Some sel, url = base_url,
            headers = [''Bmx-Token'' \<mapsto> Some t], params = [''locale'' \<mapsto> PStr l],
            language = PStr l\<rparr>"
  by (auto simp: init_def set_token_def set_id_series_def set_language_def blank_def base_url_def
           split: pyval.splits sum.splits if_splits)

subsection \<open>The fetch methods, unfolded\<close>

lemma get_metadata_run:
  "get_metadata tr c =
     (let c1 = c\<lparr>params := (params c)(''incremento'' \<mapsto> PNone)\<rparr> in
      case series c of
        None \<Rightarrow> \<lparr>result = Inl concat_error, state = c1, sent = []\<rparr>
      | Some sel \<Rightarrow>
          (let req = \<lparr>req_url = url c @ sel, req_headers = headers c, req_params = params c1\<rparr>
           in \<lparr>result = (case tr req of Inl e \<Rightarrow> Inl e
                           | Inr resp \<Rightarrow> checked_result status_message resp),
               state = c1, sent = [req]\<rparr>))"
  by (simp add: get_metadata_def set_pct_change_def checked_result_def Let_def
           split: option.splits sum.splits)

lemma get_lastdata_run:
  "valid_pct v \<Longrightarrow> get_lastdata tr v c =
     (let c1 = c\<lparr>params := (params c)(''incremento'' \<mapsto> v)\<rparr> in
      case series c of
        None \<Rightarrow> \<lparr>result = Inl concat_error, state = c1, sent = []\<rparr>
      | Some sel \<Rightarrow>
          (let req = \<lparr>req_url = url c @ sel @ ''/datos/oportuno'', req_headers = headers c,
                      req_params = params c1\<rparr>
           in \<lparr>result = (case tr req of Inl e \<Rightarrow> Inl e
                           | Inr resp \<Rightarrow> checked_result status_message resp),
               state = c1, sent = [req]\<rparr>))"
  by (simp add: get_lastdata_def set_pct_change_valid checked_result_def Let_def
           split: option.splits sum.splits)

lemma get_timeseries_run:
  "valid_pct v \<Longrightarrow> get_timeseries tr v c =
     (let c1 = c\<lparr>params := (params c)(''incremento'' \<mapsto> v)\<rparr> in
      case series c of
        None \<Rightarrow> \<lparr>result = Inl concat_error, state = c1, sent = []\<rparr>
      | Some sel \<Rightarrow>
          (let req = \<lparr>req_url = url c @ sel @ ''/datos'', req_headers = headers c,
                      req_params = params c1\<rparr>
           in \<lparr>result = (case tr req of Inl e \<Rightarrow> Inl e
                           | Inr resp \<Rightarrow> checked_result status_message resp),
               state = c1, sent = [req]\<rparr>))"
  by (simp add: get_timeseries_def set_pct_change_valid checked_result_def Let_def
           split: option.splits sum.splits)

lemma get_timeseries_range_run:
  "valid_pct v \<Longrightarrow> get_timeseries_range tr (PStr a) (PStr b) v c =
     (let c1 = c\<lparr>params := (params c)(''incremento'' \<mapsto> v)\<rparr> in
      case series c of
        None \<Rightarrow> \<lparr>result = Inl concat_error, state = c1, sent = []\<rparr>
      | Some sel \<Rightarrow>
          (let req = \<lparr>req_url = url c @ sel @ ''/datos/'' @ a @ ''/'' @ b,
                      req_headers = headers c, req_params = params c1\<rparr>
           in \<lparr>result = (case tr req of Inl e \<Rightarrow> Inl e
                           | Inr resp \<Rightarrow> checked_result status_message_range resp),
               state = c1, sent = [req]\<rparr>))"
  by (simp add: get_timeseries_range_def set_pct_change_valid checked_result_def Let_def
           split: option.splits sum.splits)

lemma date_strings_None: "\<not> (is_str a \<and> is_str b) \<Longrightarrow> date_strings a b = None"
  by (cases a; cases b) simp_all

lemma date_strings_Some: "is_str a \<Longrightarrow> is_str b \<Longrightarrow> \<exists>x y. a = PStr x \<and> b = PStr y"
  by (cases a; cases b) simp_all

lemma get_timeseries_range_bad_date:
  "valid_pct v \<Longrightarrow> \<not> (is_str a \<and> is_str b) \<Longrightarrow>
     is_type_error (result (get_timeseries_range tr a b v c)) \<and>
     sent (get_timeseries_range tr a b v c) = [] \<and>
     state (get_timeseries_range tr a b v c) = c\<lparr>params := (params c)(''incremento'' \<mapsto> v)\<rparr>"
  by (simp add: get_timeseries_range_def set_pct_change_valid date_strings_None)

lemma get_lastdata_invalid:
  "\<not> valid_pct v \<Longrightarrow>
     rejected (get_lastdata tr v c) c \<and> result (get_lastdata tr v c) = Inl (projl (fst (set_pct_change v c)))"
  using set_pct_change_invalid [of v c] by (auto simp: get_lastdata_def rejected_def)

lemma get_timeseries_invalid:
  "\<not> valid_pct v \<Longrightarrow>
     rejected (get_timeseries tr v c) c \<and> result (get_timeseries tr v c) = Inl (projl (fst (set_pct_change v c)))"
  using set_pct_change_invalid [of v c] by (auto simp: get_timeseries_def rejected_def)

lemma get_timeseries_range_invalid:
  "\<not> valid_pct v \<Longrightarrow>
     rejected (get_timeseries_range tr a b v c) c \<and>
     result (get_timeseries_range tr a b v c) = Inl (projl (fst (set_pct_change v c)))"
  using set_pct_change_invalid [of v c] by (auto simp: get_timeseries_range_def rejected_def)

subsection \<open>What the fetch methods leave behind\<close>

lemma stores_pct_lastdata: "valid_pct v \<Longrightarrow> stores_pct (get_lastdata tr v c) c v"
  by (simp add: get_lastdata_run stores_pct_def Let_def split: option.splits)

lemma stores_pct_timeseries: "valid_pct v \<Longrightarrow> stores_pct (get_timeseries tr v c) c v"
  by (simp add: get_timeseries_run stores_pct_def Let_def split: option.splits)

lemma stores_pct_range: "valid_pct v \<Longrightarrow> stores_pct (get_timeseries_range tr a b v c) c v"
proof (cases "is_str a \<and> is_str b")
  case True
  assume v: "valid_pct v"
  from True obtain x y where "a = PStr x" "b = PStr y"
    using date_strings_Some by blast
  with v show ?thesis
    by (simp add: get_timeseries_range_run stores_pct_def Let_def split: option.splits)
next
  case False
  assume "valid_pct v"
  with False show ?thesis
    using get_timeseries_range_bad_date [of v a b tr c] by (simp add: stores_pct_def)
qed

lemma invalid_string_value_error:
  "is_str v \<Longrightarrow> \<not> valid_pct v \<Longrightarrow> is_value_error (Inl (projl (fst (set_pct_change v c))))"
  using set_pct_change_bad_string [of v c] set_pct_change_invalid [of v c]
  by (auto simp: is_value_error_Inl)

lemma invalid_other_type_error:
  "\<not> is_str v \<Longrightarrow> v \<noteq> PNone \<Longrightarrow> is_type_error (Inl (projl (fst (set_pct_change v c))))"
  using set_pct_change_not_string [of v c]
  by (cases v) (auto simp: set_pct_change_def)

lemma not_str_not_valid: "\<not> is_str v \<Longrightarrow> v \<noteq> PNone \<Longrightarrow> \<not> valid_pct v"
  by (auto simp: valid_pct_cases)

lemma demo_client_record:
  "demo_client = \<lparr>token = Some ''old'', series = Some ''A'', url = base_url,
                   headers = [''Bmx-Token'' \<mapsto> Some ''old''],
                   params = [''locale'' \<mapsto> PStr ''en''], language = PStr ''en''\<rparr>"
  by (simp add: demo_client_def init_def set_token_def set_id_series_def py_join_def
        set_language_def blank_def base_url_def)

lemma demo_client_init:
  "init (PStr ''old'') (PList [PStr ''A'']) (PStr ''en'') = Inr demo_client"
  by (simp add: demo_client_def init_def set_token_def set_id_series_def py_join_def
        set_language_def blank_def)

lemma demo_client_fields:
  "token demo_client = Some ''old''" "series demo_client = Some ''A''"
  "url demo_client = base_url" "params demo_client = [''locale'' \<mapsto> PStr ''en'']"
  "headers demo_client = [''Bmx-Token'' \<mapsto> Some ''old'']"
  by (simp_all add: demo_client_record)

lemma state_get_metadata:
  "state (get_metadata tr c) = c\<lparr>params := (params c)(''incremento'' \<mapsto> PNone)\<rparr>"
  by (simp add: get_metadata_run Let_def split: option.splits)

lemma state_get_lastdata:
  "state (get_lastdata tr v c) =
     (if valid_pct v then c\<lparr>params := (params c)(''incremento'' \<mapsto> v)\<rparr> else c)"
  using get_lastdata_invalid [of v tr c]
  by (simp add: get_lastdata_run rejected_def Let_def split: option.splits)

lemma state_get_timeseries:
  "state (get_timeseries tr v c) =
     (if valid_pct v then c\<lparr>params := (params c)(''incremento'' \<mapsto> v)\<rparr> else c)"
  using get_timeseries_invalid [of v tr c]
  by (simp add: get_timeseries_run rejected_def Let_def split: option.splits)

lemma state_get_timeseries_range:
  "state (get_timeseries_range tr a b v c) =
     (if valid_pct v then c\<lparr>params := (params c)(''incremento'' \<mapsto> v)\<rparr> else c)"
proof (cases "valid_pct v")
  case True
  show ?thesis
  proof (cases "is_str a \<and> is_str b")
    case True
    then obtain x y where "a = PStr x" "b = PStr y"
      using date_strings_Some by blast
    with \<open>valid_pct v\<close> show ?thesis
      by (simp add: get_timeseries_range_run Let_def split: option.splits)
  next
    case False
    with \<open>valid_pct v\<close> show ?thesis
      by (simp add: get_timeseries_range_bad_date)
  qed
next
  case False
  then show ?thesis
    using get_timeseries_range_invalid [of v tr a b c] by (simp add: rejected_def)
qed

lemma params_inv_update:
  "params_inv p \<Longrightarrow> valid_pct v \<Longrightarrow> params_inv (p(''incremento'' \<mapsto> v))"
  by (auto simp: params_inv_def valid_pct_cases)

lemma sent_cases_lastdata:
  "sent (get_lastdata tr v c) = [req] \<Longrightarrow>
     valid_pct v \<and> (\<exists>sel. series c = Some sel \<and>
       req = \<lparr>req_url = url c @ sel @ ''/datos/oportuno'', req_headers = headers c,
              req_params = (params c)(''incremento'' \<mapsto> v)\<rparr>)"
  using get_lastdata_invalid [of v tr c]
  by (cases "valid_pct v")
     (auto simp: get_lastdata_run rejected_def Let_def split: option.splits)

lemma sent_cases_timeseries:
  "sent (get_timeseries tr v c) = [req] \<Longrightarrow>
     valid_pct v \<and> (\<exists>sel. series c = Some sel \<and>
       req = \<lparr>req_url = url c @ sel @ ''/datos'', req_headers = headers c,
              req_params = (params c)(''incremento'' \<mapsto> v)\<rparr>)"
  using get_timeseries_invalid [of v tr c]
  by (cases "valid_pct v")
     (auto simp: get_timeseries_run rejected_def Let_def split: option.splits)

lemma sent_cases_range:
  assumes "sent (get_timeseries_range tr a b v c) = [req]"
  shows "valid_pct v \<and> (\<exists>sel x y. series c = Some sel \<and> a = PStr x \<and> b = PStr y \<and>
       req = \<lparr>req_url = url c @ sel @ ''/datos/'' @ x @ ''/'' @ y, req_headers = headers c,
              req_params = (params c)(''incremento'' \<mapsto> v)\<rparr>)"
proof -
  have v: "valid_pct v"
    using assms get_timeseries_range_invalid [of v tr a b c]
    by (cases "valid_pct v") (auto simp: rejected_def)
  have "is_str a \<and> is_str b"
    using assms v get_timeseries_range_bad_date [of v a b tr c] by auto
  then obtain x y where xy: "a = PStr x" "b = PStr y"
    using date_strings_Some by blast
  with assms v show ?thesis
    by (auto simp: get_timeseries_range_run Let_def split: option.splits)
qed

lemma str_int_examples: "str_int 404 = ''404''" "str_int 201 = ''201''"
  by code_simp+


section \<open>Construction\<close>

text \<open>
  Claim C7, as stated: construction with a language other than \<open>en\<close> or \<open>es\<close> fails
  with a value error. It does not for a language that is not a string: with a string
  token and a list of strings, \<open>language = 5\<close> raises \<open>TypeError\<close>, which is not a value
  error.
\<close>

theorem language_not_string_counterexample:
  "valid_ids (PList [PStr ''A'']) \<and>
   is_type_error (init (PStr ''t'') (PList [PStr ''A'']) (PInt 5)) \<and>
   \<not> is_value_error (init (PStr ''t'') (PList [PStr ''A'']) (PInt 5))"
  by (simp add: init_def set_token_def set_id_series_def py_join_def set_language_def)

text \<open>
  Claim C7, amended. With a string token and a series argument the setter accepts,
  construction with language \<open>en\<close> or \<open>es\<close> succeeds and the params mapping of the new
  object is exactly \<open>locale\<close> mapped to that language; with any other string it fails
  with \<open>ValueError\<close>; with a value that is not a string it fails with \<open>TypeError\<close>.
\<close>

theorem language_validation:
  "valid_ids ids \<Longrightarrow>
     (if lang = PStr ''en'' \<or> lang = PStr ''es''
      then \<exists>c. init (PStr t) ids lang = Inr c \<and> params c = [''locale'' \<mapsto> lang]
      else if is_str lang then is_value_error (init (PStr t) ids lang)
      else is_type_error (init (PStr t) ids lang))"
proof -
  assume "valid_ids ids"
  then obtain sel where
    sel: "\<And>c. set_id_series ids c = (Inr (), c\<lparr>series := Some sel\<rparr>)"
    using set_id_series_valid by blast
  show ?thesis
    by (cases lang) (auto simp: init_def set_token_str sel set_language_def)
qed

theorem language_validation_witness:
  "valid_ids (PList [PStr ''A'']) \<and>
   \<not> isl (init (PStr ''t'') (PList [PStr ''A'']) (PStr ''es'')) \<and>
   params (projr (init (PStr ''t'') (PList [PStr ''A'']) (PStr ''es''))) ''locale''
     = Some (PStr ''es'') \<and>
   is_value_error (init (PStr ''t'') (PList [PStr ''A'']) (PStr ''fr'')) \<and>
   is_type_error (init (PStr ''t'') (PList [PStr ''A'']) PNone)"
proof -
  have h: "valid_ids (PList [PStr ''A''])"
    by simp
  show ?thesis
    using h language_validation [OF h, of "PStr ''es''" "''t''"]
      language_validation [OF h, of "PStr ''fr''" "''t''"]
      language_validation [OF h, of PNone "''t''"]
    by auto
qed

section \<open>The series selector\<close>

text \<open>
  Claim C5. For every list of strings \<open>ids\<close>, \<open>set_id_series\<close> stores the elements
  joined with a comma, in input order, and so does construction with that argument
  (given a string token and a supported language); a single string is stored as it
  is; an argument that is neither a string nor a list raises \<open>TypeError\<close>, from
  \<open>set_id_series\<close> with the object unchanged and from the constructor whatever the
  other arguments are.
\<close>

theorem set_id_series_joins:
  "set_id_series (PList (map PStr ids)) c = (Inr (), c\<lparr>series := Some (str_join '','' ids)\<rparr>) \<and>
   set_id_series (PStr s) c = (Inr (), c\<lparr>series := Some s\<rparr>) \<and>
   (l = ''en'' \<or> l = ''es'' \<longrightarrow>
      map_sum id series (init (PStr t) (PList (map PStr ids)) (PStr l))
        = Inr (Some (str_join '','' ids)) \<and>
      map_sum id series (init (PStr t) (PStr s) (PStr l)) = Inr (Some s)) \<and>
   (\<not> is_str v \<and> \<not> is_list v \<longrightarrow>
      is_type_error (fst (set_id_series v c)) \<and> snd (set_id_series v c) = c \<and>
      is_type_error (init tok v lang))"
proof -
  have "is_type_error (init tok v lang)" if "\<not> is_str v" "\<not> is_list v"
    using that
    by (cases v; cases tok)
       (simp_all add: init_def set_token_def set_id_series_def)
  moreover have
    "map_sum id series (init (PStr t) (PList (map PStr ids)) (PStr l)) = Inr (Some (str_join '','' ids))"
    "map_sum id series (init (PStr t) (PStr s) (PStr l)) = Inr (Some s)"
    if "l = ''en'' \<or> l = ''es''"
    using that
    by (auto simp: init_def set_token_str set_id_series_strs set_id_series_str set_language_def)
  ultimately show ?thesis
    by (simp add: set_id_series_strs set_id_series_str set_id_series_other)
qed

theorem set_id_series_joins_witness:
  "series (snd (set_id_series (PList (map PStr [''SF43718'', ''SF43719''])) blank))
     = Some ''SF43718,SF43719'' \<and>
   series (snd (set_id_series (PStr ''SF311408-SF311410'') blank)) = Some ''SF311408-SF311410'' \<and>
   map_sum id series (init (PStr ''t'') (PList (map PStr [''SF43718'', ''SF43719''])) (PStr ''en''))
     = Inr (Some ''SF43718,SF43719'') \<and>
   \<not> is_str (PInt 7) \<and> \<not> is_list (PInt 7) \<and>
   is_type_error (fst (set_id_series (PInt 7) demo_client)) \<and>
   snd (set_id_series (PInt 7) demo_client) = demo_client \<and>
   is_type_error (init (PStr ''t'') (PInt 7) (PStr ''en''))"
  using set_id_series_joins [of "[''SF43718'', ''SF43719'']" blank "''SF311408-SF311410''" "''en''"
          "''t''" "PInt 7" "PStr ''t''" "PStr ''en''"]
        set_id_series_joins [of "[]" demo_client "[]" "''en''" "[]" "PInt 7" "PStr ''t''" "PStr ''en''"]
  by simp

text \<open>
  Claim C6. \<open>append_id_series\<close> raises \<open>TypeError\<close> for an argument that is not a
  list (a bare string among them) and leaves the object unchanged; for a list of
  strings it replaces the selector by the old selector, a comma, and the ids joined
  with commas; appending \<open>["B"]\<close> after setting \<open>["A"]\<close> gives \<open>A,B\<close>.
\<close>

theorem append_id_series_appends:
  "(\<not> is_list v \<longrightarrow>
      is_type_error (fst (append_id_series v c)) \<and> snd (append_id_series v c) = c) \<and>
   (series c = Some old \<longrightarrow>
      append_id_series (PList (map PStr ids)) c
        = (Inr (), c\<lparr>series := Some (old @ '','' @ str_join '','' ids)\<rparr>)) \<and>
   series (snd (append_id_series (PList [PStr ''B''])
                  (snd (set_id_series (PList [PStr ''A'']) c)))) = Some ''A,B''"
proof -
  have "series (snd (append_id_series (PList [PStr ''B''])
                  (snd (set_id_series (PList [PStr ''A'']) c)))) = Some ''A,B''"
    by (simp add: set_id_series_def append_id_series_def py_join_def)
  then show ?thesis
    by (simp add: append_id_series_not_list append_id_series_strs)
qed

theorem append_id_series_appends_witness:
  "\<not> is_list (PStr ''B'') \<and>
   is_type_error (fst (append_id_series (PStr ''B'') demo_client)) \<and>
   snd (append_id_series (PStr ''B'') demo_client) = demo_client \<and>
   series demo_client = Some ''A'' \<and>
   series (snd (append_id_series (PList (map PStr [''B'', ''C''])) demo_client)) = Some ''A,B,C''"
proof -
  have s: "series demo_client = Some ''A''"
    by code_simp
  show ?thesis
    using s append_id_series_appends [of "PStr ''B''" demo_client "''A''" "[''B'', ''C'']"]
    by simp
qed

text \<open>
  Claim C10. A list with at least one element that is not a string makes
  \<open>set_id_series\<close> and \<open>append_id_series\<close> raise \<open>TypeError\<close> (the join fails), and
  the object, its selector included, is left as it was.
\<close>

theorem non_string_item_rejected:
  "\<not> list_all is_str xs \<Longrightarrow>
     is_type_error (fst (set_id_series (PList xs) c)) \<and> snd (set_id_series (PList xs) c) = c \<and>
     is_type_error (fst (append_id_series (PList xs) c)) \<and>
     snd (append_id_series (PList xs) c) = c"
  by (simp add: set_id_series_bad_list append_id_series_bad_list)

theorem non_string_item_rejected_witness:
  "\<not> list_all is_str [PStr ''A'', PInt 3] \<and>
   is_type_error (fst (set_id_series (PList [PStr ''A'', PInt 3]) demo_client)) \<and>
   snd (set_id_series (PList [PStr ''A'', PInt 3]) demo_client) = demo_client \<and>
   is_type_error (fst (append_id_series (PList [PStr ''A'', PInt 3]) demo_client)) \<and>
   snd (append_id_series (PList [PStr ''A'', PInt 3]) demo_client) = demo_client"
proof -
  have h: "\<not> list_all is_str [PStr ''A'', PInt 3]" by simp
  show ?thesis using h non_string_item_rejected [OF h, of demo_client] by simp
qed

section \<open>The token header\<close>

text \<open>
  Claim C1 says that a request after \<open>set_token\<close> carries the new token. The code
  builds the header dictionary once, in \<open>__init__\<close>, and \<open>set_token\<close> assigns only the
  attribute \<open>token\<close>: for the client built with token \<open>old\<close>, after
  \<open>set_token('new')\<close> the stored token is \<open>new\<close> and the request of \<open>get_metadata\<close>
  still carries \<open>old\<close> under \<open>Bmx-Token\<close>.
\<close>

theorem stale_token_header:
  "init (PStr ''old'') (PList [PStr ''A'']) (PStr ''en'') = Inr demo_client \<and>
   set_token (PStr ''new'') demo_client = (Inr (), demo_client_new_token) \<and>
   token demo_client_new_token = Some ''new'' \<and>
   map req_url (sent (get_metadata demo_transport demo_client_new_token))
     = [''https://www.banxico.org.mx/SieAPIRest/service/v1/series/A''] \<and>
   req_headers (hd (sent (get_metadata demo_transport demo_client_new_token))) ''Bmx-Token''
     = Some (Some ''old'')"
  by (simp add: demo_client_init demo_client_new_token_def set_token_str get_metadata_run
        demo_client_fields Let_def base_url_def)

section \<open>Validation of the change mode\<close>

text \<open>
  Claim C3. For \<open>get_lastdata\<close>, \<open>get_timeseries\<close> and \<open>get_timeseries_range\<close>: an
  accepted \<open>pct_change\<close> (\<open>None\<close> or one of the three modes) is written under
  \<open>incremento\<close>, replacing what was there, and every request of the call carries it --
  one request is sent when a selector is stored (and, for the range, the dates are
  strings); any other string raises \<open>ValueError\<close> and any value that is neither a
  string nor \<open>None\<close> raises \<open>TypeError\<close>, with no request sent and the object, so
  \<open>incremento\<close> too, untouched.
\<close>

theorem pct_change_validation:
  "(valid_pct v \<longrightarrow>
      stores_pct (get_lastdata tr v c) c v \<and>
      stores_pct (get_timeseries tr v c) c v \<and>
      stores_pct (get_timeseries_range tr a b v c) c v \<and>
      (series c \<noteq> None \<longrightarrow>
         length (sent (get_lastdata tr v c)) = 1 \<and>
         length (sent (get_timeseries tr v c)) = 1 \<and>
         (is_str a \<and> is_str b \<longrightarrow> length (sent (get_timeseries_range tr a b v c)) = 1))) \<and>
   (is_str v \<and> \<not> valid_pct v \<longrightarrow>
      is_value_error (result (get_lastdata tr v c)) \<and> rejected (get_lastdata tr v c) c \<and>
      is_value_error (result (get_timeseries tr v c)) \<and> rejected (get_timeseries tr v c) c \<and>
      is_value_error (result (get_timeseries_range tr a b v c)) \<and>
      rejected (get_timeseries_range tr a b v c) c) \<and>
   (\<not> is_str v \<and> v \<noteq> PNone \<longrightarrow>
      is_type_error (result (get_lastdata tr v c)) \<and> rejected (get_lastdata tr v c) c \<and>
      is_type_error (result (get_timeseries tr v c)) \<and> rejected (get_timeseries tr v c) c \<and>
      is_type_error (result (get_timeseries_range tr a b v c)) \<and>
      rejected (get_timeseries_range tr a b v c) c)"
proof (intro conjI impI)
  assume v: "valid_pct v"
  show "stores_pct (get_lastdata tr v c) c v" using v by (rule stores_pct_lastdata)
  show "stores_pct (get_timeseries tr v c) c v" using v by (rule stores_pct_timeseries)
  show "stores_pct (get_timeseries_range tr a b v c) c v" using v by (rule stores_pct_range)
  assume s: "series c \<noteq> None"
  show "length (sent (get_lastdata tr v c)) = 1"
    using v s by (auto simp: get_lastdata_run Let_def)
  show "length (sent (get_timeseries tr v c)) = 1"
    using v s by (auto simp: get_timeseries_run Let_def)
  assume "is_str a \<and> is_str b"
  then obtain x y where "a = PStr x" "b = PStr y"
    using date_strings_Some by blast
  then show "length (sent (get_timeseries_range tr a b v c)) = 1"
    using v s by (auto simp: get_timeseries_range_run Let_def)
next
  assume h: "is_str v \<and> \<not> valid_pct v"
  then have e: "is_value_error (Inl (projl (fst (set_pct_change v c))))"
    by (simp add: invalid_string_value_error)
  from h show "rejected (get_lastdata tr v c) c"
    and "rejected (get_timeseries tr v c) c"
    and "rejected (get_timeseries_range tr a b v c) c"
    by (simp_all add: get_lastdata_invalid get_timeseries_invalid get_timeseries_range_invalid)
  from h e show "is_value_error (result (get_lastdata tr v c))"
    and "is_value_error (result (get_timeseries tr v c))"
    and "is_value_error (result (get_timeseries_range tr a b v c))"
    by (simp_all add: get_lastdata_invalid get_timeseries_invalid get_timeseries_range_invalid)
next
  assume h: "\<not> is_str v \<and> v \<noteq> PNone"
  then have n: "\<not> valid_pct v" by (simp add: not_str_not_valid)
  from h have e: "is_type_error (Inl (projl (fst (set_pct_change v c))))"
    by (simp add: invalid_other_type_error)
  from n show "rejected (get_lastdata tr v c) c"
    and "rejected (get_timeseries tr v c) c"
    and "rejected (get_timeseries_range tr a b v c) c"
    by (simp_all add: get_lastdata_invalid get_timeseries_invalid get_timeseries_range_invalid)
  from n e show "is_type_error (result (get_lastdata tr v c))"
    and "is_type_error (result (get_timeseries tr v c))"
    and "is_type_error (result (get_timeseries_range tr a b v c))"
    by (simp_all add: get_lastdata_invalid get_timeseries_invalid get_timeseries_range_invalid)
qed

theorem pct_change_validation_witness:
  "valid_pct (PStr ''PorcAnual'') \<and> series demo_client \<noteq> None \<and>
   is_str (PStr ''2020-01-01'') \<and> is_str (PStr ''2020-12-31'') \<and>
   stores_pct (get_lastdata demo_transport (PStr ''PorcAnual'') demo_client)
     demo_client (PStr ''PorcAnual'') \<and>
   length (sent (get_timeseries_range demo_transport (PStr ''2020-01-01'') (PStr ''2020-12-31'')
                   (PStr ''PorcAnual'') demo_client)) = 1 \<and>
   params (state (get_timeseries demo_transport PNone
             (state (get_lastdata demo_transport (PStr ''PorcAnual'') demo_client))))
      ''incremento'' = Some PNone \<and>
   is_str (PStr ''bogus'') \<and> \<not> valid_pct (PStr ''bogus'') \<and>
   is_value_error (result (get_timeseries demo_transport (PStr ''bogus'') demo_client)) \<and>
   rejected (get_timeseries demo_transport (PStr ''bogus'') demo_client) demo_client \<and>
   \<not> is_str (PInt 3) \<and> PInt 3 \<noteq> PNone \<and>
   is_type_error (result (get_lastdata demo_transport (PInt 3) demo_client)) \<and>
   rejected (get_lastdata demo_transport (PInt 3) demo_client) demo_client"
proof -
  have v: "valid_pct (PStr ''PorcAnual'')" "valid_pct PNone" "\<not> valid_pct (PStr ''bogus'')"
    by (simp_all add: valid_pct_def)
  have s: "series demo_client \<noteq> None"
    by (simp add: demo_client_fields)
  show ?thesis
    using v s
      pct_change_validation [of "PStr ''PorcAnual''" demo_transport demo_client
        "PStr ''2020-01-01''" "PStr ''2020-12-31''"]
      pct_change_validation [of PNone demo_transport
        "state (get_lastdata demo_transport (PStr ''PorcAnual'') demo_client)"
        "PStr ''2020-01-01''" "PStr ''2020-12-31''"]
      pct_change_validation [of "PStr ''bogus''" demo_transport demo_client
        "PStr ''2020-01-01''" "PStr ''2020-12-31''"]
      pct_change_validation [of "PInt 3" demo_transport demo_client
        "PStr ''2020-01-01''" "PStr ''2020-12-31''"]
    by (simp add: stores_pct_def)
qed

text \<open>
  Claim C2, as stated: a fetch call that raises a validation error leaves the params
  mapping as it was. \<open>get_timeseries_range\<close> validates the dates after
  \<open>__set_pct_change\<close> has stored \<open>pct_change\<close>: with \<open>PorcAnual\<close> and the end date
  \<open>2020\<close> (an int), the call raises \<open>TypeError\<close> and \<open>incremento\<close>, absent before, now
  holds \<open>PorcAnual\<close>.
\<close>

theorem range_bad_date_writes_incremento:
  "valid_pct (PStr ''PorcAnual'') \<and> \<not> is_str (PInt 2020) \<and>
   is_type_error (result (get_timeseries_range demo_transport (PStr ''2020-01-01'') (PInt 2020)
                            (PStr ''PorcAnual'') demo_client)) \<and>
   params demo_client ''incremento'' = None \<and>
   params (state (get_timeseries_range demo_transport (PStr ''2020-01-01'') (PInt 2020)
                    (PStr ''PorcAnual'') demo_client)) ''incremento'' = Some (PStr ''PorcAnual'') \<and>
   params (state (get_timeseries_range demo_transport (PStr ''2020-01-01'') (PInt 2020)
                    (PStr ''PorcAnual'') demo_client)) \<noteq> params demo_client"
proof -
  have v: "valid_pct (PStr ''PorcAnual'')"
    by (simp add: valid_pct_def)
  have d: "\<not> (is_str (PStr ''2020-01-01'') \<and> is_str (PInt 2020))"
    by simp
  have n: "params demo_client ''incremento'' = None"
    by (simp add: demo_client_fields)
  have w: "params (state (get_timeseries_range demo_transport (PStr ''2020-01-01'') (PInt 2020)
                    (PStr ''PorcAnual'') demo_client)) ''incremento'' = Some (PStr ''PorcAnual'')"
    using v by (simp add: state_get_timeseries_range)
  from n w have
    "params (state (get_timeseries_range demo_transport (PStr ''2020-01-01'') (PInt 2020)
                    (PStr ''PorcAnual'') demo_client)) \<noteq> params demo_client"
    by (metis option.distinct(1))
  with v n w show ?thesis
    using get_timeseries_range_bad_date [OF v d, of demo_transport demo_client] by simp
qed

text \<open>
  Claim C2, amended. Every validation error of a fetch call is raised before any
  request is sent. A rejected \<open>pct_change\<close> (a \<open>TypeError\<close> or a \<open>ValueError\<close>) leaves
  the object unchanged. \<open>get_timeseries_range\<close> with an accepted \<open>pct_change\<close> and a
  date that is not a string raises \<open>TypeError\<close> with that \<open>pct_change\<close> already stored
  under \<open>incremento\<close>, and nothing else of the object changed.
\<close>

theorem validation_before_request:
  "(\<not> valid_pct v \<longrightarrow>
      (is_type_error (result (get_lastdata tr v c)) \<or>
       is_value_error (result (get_lastdata tr v c))) \<and>
      rejected (get_lastdata tr v c) c \<and>
      (is_type_error (result (get_timeseries tr v c)) \<or>
       is_value_error (result (get_timeseries tr v c))) \<and>
      rejected (get_timeseries tr v c) c \<and>
      (is_type_error (result (get_timeseries_range tr a b v c)) \<or>
       is_value_error (result (get_timeseries_range tr a b v c))) \<and>
      rejected (get_timeseries_range tr a b v c) c) \<and>
   (valid_pct v \<and> \<not> (is_str a \<and> is_str b) \<longrightarrow>
      is_type_error (result (get_timeseries_range tr a b v c)) \<and>
      sent (get_timeseries_range tr a b v c) = [] \<and>
      state (get_timeseries_range tr a b v c)
        = c\<lparr>params := (params c)(''incremento'' \<mapsto> v)\<rparr>)"
proof -
  have "is_type_error (Inl (projl (fst (set_pct_change v c))) :: error + 'a) \<or>
        is_value_error (Inl (projl (fst (set_pct_change v c))) :: error + 'a)"
    if "\<not> valid_pct v"
    using that invalid_string_value_error [of v c] invalid_other_type_error [of v c]
    by (cases "is_str v") (auto simp: valid_pct_cases)
  then show ?thesis
    by (simp add: get_lastdata_invalid get_timeseries_invalid get_timeseries_range_invalid
          get_timeseries_range_bad_date)
qed

theorem validation_before_request_witness:
  "\<not> valid_pct (PStr ''bogus'') \<and>
   (is_type_error (result (get_lastdata demo_transport (PStr ''bogus'') demo_client)) \<or>
    is_value_error (result (get_lastdata demo_transport (PStr ''bogus'') demo_client))) \<and>
   rejected (get_lastdata demo_transport (PStr ''bogus'') demo_client) demo_client \<and>
   rejected (get_timeseries_range demo_transport (PStr ''2020-01-01'') (PInt 2020)
               (PStr ''bogus'') demo_client) demo_client \<and>
   valid_pct PNone \<and> \<not> (is_str (PStr ''2020-01-01'') \<and> is_str (PInt 2020)) \<and>
   is_type_error (result (get_timeseries_range demo_transport (PStr ''2020-01-01'') (PInt 2020)
                            PNone demo_client)) \<and>
   sent (get_timeseries_range demo_transport (PStr ''2020-01-01'') (PInt 2020) PNone demo_client)
     = [] \<and>
   params (state (get_timeseries_range demo_transport (PStr ''2020-01-01'') (PInt 2020) PNone
                    demo_client)) ''incremento'' = Some PNone \<and>
   params (state (get_timeseries_range demo_transport (PStr ''2020-01-01'') (PInt 2020) PNone
                    demo_client)) ''locale'' = Some (PStr ''en'')"
proof -
  have v: "\<not> valid_pct (PStr ''bogus'')" "valid_pct PNone"
    by (simp_all add: valid_pct_def)
  show ?thesis
    using v
      validation_before_request [of "PStr ''bogus''" demo_transport demo_client
        "PStr ''2020-01-01''" "PInt 2020"]
      validation_before_request [of PNone demo_transport demo_client
        "PStr ''2020-01-01''" "PInt 2020"]
    by (simp add: demo_client_fields)
qed

section \<open>Request URLs\<close>

text \<open>
  Claim C8, as stated: \<open>get_timeseries_range\<close> raises a type error whenever a date
  argument is not a string. \<open>__set_pct_change\<close> runs before the date check: with the end
  date \<open>2020\<close> (an int) and \<open>pct_change = 'bogus'\<close> the call raises \<open>ValueError\<close>, not
  \<open>TypeError\<close> (and sends nothing).
\<close>

theorem range_bad_date_bogus_pct_value_error:
  "\<not> (is_str (PStr ''2020-01-01'') \<and> is_str (PInt 2020)) \<and>
   is_value_error (result (get_timeseries_range demo_transport (PStr ''2020-01-01'') (PInt 2020)
                             (PStr ''bogus'') demo_client)) \<and>
   \<not> is_type_error (result (get_timeseries_range demo_transport (PStr ''2020-01-01'') (PInt 2020)
                               (PStr ''bogus'') demo_client)) \<and>
   sent (get_timeseries_range demo_transport (PStr ''2020-01-01'') (PInt 2020)
           (PStr ''bogus'') demo_client) = []"
  by (simp add: get_timeseries_range_def set_pct_change_def)

text \<open>
  Claim C8, amended. Construction stores the fixed base URL and a selector, and no
  method changes the URL or removes the selector. On such an object every fetch method
  sends its one request to the base URL followed by the selector and the suffix of the
  method: none for \<open>get_metadata\<close>, \<open>/datos/oportuno\<close> for \<open>get_lastdata\<close>, \<open>/datos\<close>
  for \<open>get_timeseries\<close>, \<open>/datos/init/end\<close> for \<open>get_timeseries_range\<close> (for the last
  three, with a \<open>pct_change\<close> that the earlier check accepts). On any object,
  \<open>get_timeseries_range\<close> with a date that is not a string sends nothing whatever
  \<open>pct_change\<close> is, and raises \<open>TypeError\<close> when \<open>pct_change\<close> passes its check.
\<close>

theorem fetch_urls:
  "(init tok ids lang = Inr c0 \<longrightarrow> ready c0) \<and>
   (ready c \<longrightarrow>
      ready (snd (set_token u c)) \<and> ready (snd (set_id_series u c)) \<and>
      ready (snd (append_id_series u c)) \<and> ready (state (get_metadata tr c)) \<and>
      ready (state (get_lastdata tr u c)) \<and> ready (state (get_timeseries tr u c)) \<and>
      ready (state (get_timeseries_range tr a b u c))) \<and>
   (ready c \<and> series c = Some sel \<longrightarrow>
      map req_url (sent (get_metadata tr c)) = [base_url @ sel] \<and>
      (valid_pct v \<longrightarrow>
         map req_url (sent (get_lastdata tr v c)) = [base_url @ sel @ ''/datos/oportuno''] \<and>
         map req_url (sent (get_timeseries tr v c)) = [base_url @ sel @ ''/datos''] \<and>
         map req_url (sent (get_timeseries_range tr (PStr x) (PStr y) v c))
           = [base_url @ sel @ ''/datos/'' @ x @ ''/'' @ y])) \<and>
   (valid_pct v \<and> \<not> (is_str a \<and> is_str b) \<longrightarrow>
      is_type_error (result (get_timeseries_range tr a b v c')) \<and>
      sent (get_timeseries_range tr a b v c') = []) \<and>
   (\<not> (is_str a \<and> is_str b) \<longrightarrow> sent (get_timeseries_range tr a b u c') = [])"
proof (intro conjI impI)
  assume "init tok ids lang = Inr c0"
  then show "ready c0"
    using init_form [of tok ids lang c0] by (auto simp: ready_def)
next
  assume r: "ready c"
  show "ready (snd (set_token u c))"
    using r by (cases u) (simp_all add: set_token_def ready_def)
  show "ready (snd (set_id_series u c))"
    using r by (cases u) (simp_all add: set_id_series_def ready_def split: sum.splits)
  show "ready (snd (append_id_series u c))"
    using r by (cases u) (auto simp: append_id_series_def ready_def split: sum.splits)
  show "ready (state (get_metadata tr c))"
    using r by (simp add: state_get_metadata ready_def)
  show "ready (state (get_lastdata tr u c))"
    using r by (simp add: state_get_lastdata ready_def)
  show "ready (state (get_timeseries tr u c))"
    using r by (simp add: state_get_timeseries ready_def)
  show "ready (state (get_timeseries_range tr a b u c))"
    using r by (simp add: state_get_timeseries_range ready_def)
next
  assume h: "ready c \<and> series c = Some sel"
  then show "map req_url (sent (get_metadata tr c)) = [base_url @ sel]"
    by (simp add: get_metadata_run ready_def Let_def)
  assume v: "valid_pct v"
  from h v show "map req_url (sent (get_lastdata tr v c)) = [base_url @ sel @ ''/datos/oportuno'']"
    by (simp add: get_lastdata_run ready_def Let_def)
  from h v show "map req_url (sent (get_timeseries tr v c)) = [base_url @ sel @ ''/datos'']"
    by (simp add: get_timeseries_run ready_def Let_def)
  from h v show "map req_url (sent (get_timeseries_range tr (PStr x) (PStr y) v c))
           = [base_url @ sel @ ''/datos/'' @ x @ ''/'' @ y]"
    by (simp add: get_timeseries_range_run ready_def Let_def)
next
  assume "valid_pct v \<and> \<not> (is_str a \<and> is_str b)"
  then show "is_type_error (result (get_timeseries_range tr a b v c'))"
    and "sent (get_timeseries_range tr a b v c') = []"
    by (simp_all add: get_timeseries_range_bad_date)
next
  assume d: "\<not> (is_str a \<and> is_str b)"
  show "sent (get_timeseries_range tr a b u c') = []"
  proof (cases "valid_pct u")
    case True
    with d show ?thesis by (simp add: get_timeseries_range_bad_date)
  next
    case False
    then show ?thesis
      using get_timeseries_range_invalid [of u tr a b c'] by (simp add: rejected_def)
  qed
qed

theorem fetch_urls_witness:
  "init (PStr ''old'') (PList [PStr ''A'']) (PStr ''en'') = Inr demo_client \<and>
   ready demo_client \<and> series demo_client = Some ''A'' \<and>
   ready (snd (set_id_series (PStr ''B'') demo_client)) \<and>
   valid_pct PNone \<and>
   map req_url (sent (get_metadata demo_transport demo_client))
     = [''https://www.banxico.org.mx/SieAPIRest/service/v1/series/A''] \<and>
   map req_url (sent (get_lastdata demo_transport PNone demo_client))
     = [''https://www.banxico.org.mx/SieAPIRest/service/v1/series/A/datos/oportuno''] \<and>
   map req_url (sent (get_timeseries demo_transport PNone demo_client))
     = [''https://www.banxico.org.mx/SieAPIRest/service/v1/series/A/datos''] \<and>
   map req_url (sent (get_timeseries_range demo_transport (PStr ''2020-01-01'')
                        (PStr ''2020-12-31'') PNone demo_client))
     = [''https://www.banxico.org.mx/SieAPIRest/service/v1/series/A/datos/2020-01-01/2020-12-31''] \<and>
   \<not> (is_str (PStr ''2020-01-01'') \<and> is_str (PInt 2020)) \<and>
   is_type_error (result (get_timeseries_range demo_transport (PStr ''2020-01-01'') (PInt 2020)
                            PNone demo_client)) \<and>
   sent (get_timeseries_range demo_transport (PStr ''2020-01-01'') (PInt 2020) PNone blank)
     = [] \<and>
   is_type_error (result (get_timeseries_range demo_transport (PStr ''2020-01-01'') (PInt 2020)
                            PNone blank)) \<and>
   sent (get_timeseries_range demo_transport (PStr ''2020-01-01'') (PInt 2020) (PStr ''bogus'')
           demo_client) = []"
proof -
  have v: "valid_pct PNone"
    by (simp add: valid_pct_def)
  show ?thesis
    using v demo_client_init demo_client_fields(2)
      fetch_urls [where tok = "PStr ''old''" and ids = "PList [PStr ''A'']"
        and lang = "PStr ''en''" and ?c0.0 = demo_client and c = demo_client
        and u = "PStr ''B''" and tr = demo_transport and a = "PStr ''2020-01-01''"
        and b = "PInt 2020" and sel = "''A''" and v = PNone
        and x = "''2020-01-01''" and y = "''2020-12-31''" and c' = demo_client]
      fetch_urls [where tok = "PStr ''old''" and ids = "PList [PStr ''A'']"
        and lang = "PStr ''en''" and ?c0.0 = demo_client and c = demo_client
        and u = "PStr ''bogus''" and tr = demo_transport and a = "PStr ''2020-01-01''"
        and b = "PInt 2020" and sel = "''A''" and v = PNone
        and x = "''2020-01-01''" and y = "''2020-12-31''" and c' = demo_client]
      fetch_urls [where tok = "PStr ''old''" and ids = "PList [PStr ''A'']"
        and lang = "PStr ''en''" and ?c0.0 = demo_client and c = demo_client
        and u = "PStr ''B''" and tr = demo_transport and a = "PStr ''2020-01-01''"
        and b = "PInt 2020" and sel = "''A''" and v = PNone
        and x = "''2020-01-01''" and y = "''2020-12-31''" and c' = blank]
    by (simp add: base_url_def)
qed

section \<open>The status check\<close>

text \<open>
  Claim C4, as stated: the request error is raised exactly when the status is not a
  2xx status. The code compares with 200 only: a response with status 201, a 2xx
  status, makes \<open>get_metadata\<close> raise the request error.
\<close>

theorem status_201_raises:
  "is_2xx 201 \<and>
   result (get_metadata created_transport demo_client)
     = Inl (RequestException
         ''Something go wrong with the request. Review the token or series id.\<newline>Status code: 201'') \<and>
   is_request_error (result (get_metadata created_transport demo_client))"
  by (simp add: is_2xx_def get_metadata_run demo_client_fields Let_def created_transport_def
        mock_transport_def checked_result_def status_message_def str_int_examples)

text \<open>
  Claim C4, amended. Whenever a fetch method has sent its request and the transport
  has answered with a response, the method raises the request error whose message ends
  with the status code exactly when the status is not 200, and at status 200 it returns
  what \<open>response.json()\<close> gives, the parsed body unchanged.
\<close>

theorem status_check:
  "(sent (get_metadata tr c) = [req] \<and> tr req = Inr resp \<longrightarrow>
      result (get_metadata tr c) = checked_result status_message resp) \<and>
   (sent (get_lastdata tr v c) = [req] \<and> tr req = Inr resp \<longrightarrow>
      result (get_lastdata tr v c) = checked_result status_message resp) \<and>
   (sent (get_timeseries tr v c) = [req] \<and> tr req = Inr resp \<longrightarrow>
      result (get_timeseries tr v c) = checked_result status_message resp) \<and>
   (sent (get_timeseries_range tr a b v c) = [req] \<and> tr req = Inr resp \<longrightarrow>
      result (get_timeseries_range tr a b v c) = checked_result status_message_range resp)"
proof (intro conjI impI)
  assume "sent (get_metadata tr c) = [req] \<and> tr req = Inr resp"
  then show "result (get_metadata tr c) = checked_result status_message resp"
    by (auto simp: get_metadata_run Let_def split: option.splits)
next
  assume h: "sent (get_lastdata tr v c) = [req] \<and> tr req = Inr resp"
  with sent_cases_lastdata [of tr v c req]
  show "result (get_lastdata tr v c) = checked_result status_message resp"
    by (auto simp: get_lastdata_run Let_def)
next
  assume h: "sent (get_timeseries tr v c) = [req] \<and> tr req = Inr resp"
  with sent_cases_timeseries [of tr v c req]
  show "result (get_timeseries tr v c) = checked_result status_message resp"
    by (auto simp: get_timeseries_run Let_def)
next
  assume h: "sent (get_timeseries_range tr a b v c) = [req] \<and> tr req = Inr resp"
  with sent_cases_range [of tr a b v c req]
  show "result (get_timeseries_range tr a b v c) = checked_result status_message_range resp"
    by (auto simp: get_timeseries_range_run Let_def)
qed

theorem status_check_witness:
  "sent (get_metadata not_found_transport demo_client)
     = [hd (sent (get_metadata not_found_transport demo_client))] \<and>
   not_found_transport (hd (sent (get_metadata not_found_transport demo_client)))
     = Inr \<lparr>status_code = 404, json = Inr ()\<rparr> \<and>
   result (get_metadata not_found_transport demo_client)
     = Inl (RequestException
         ''Something go wrong with the request. Review the token or series id.\<newline>Status code: 404'') \<and>
   sent (get_lastdata not_found_transport PNone demo_client)
     = [hd (sent (get_lastdata not_found_transport PNone demo_client))] \<and>
   is_request_error (result (get_lastdata not_found_transport PNone demo_client)) \<and>
   sent (get_timeseries not_found_transport PNone demo_client)
     = [hd (sent (get_timeseries not_found_transport PNone demo_client))] \<and>
   is_request_error (result (get_timeseries not_found_transport PNone demo_client)) \<and>
   sent (get_timeseries_range not_found_transport (PStr ''2020-01-01'') (PStr ''2020-12-31'')
           PNone demo_client)
     = [hd (sent (get_timeseries_range not_found_transport (PStr ''2020-01-01'')
                    (PStr ''2020-12-31'') PNone demo_client))] \<and>
   result (get_timeseries_range not_found_transport (PStr ''2020-01-01'') (PStr ''2020-12-31'')
             PNone demo_client)
     = Inl (RequestException
         ''Something go wrong with the request. Review the token, series id or date format.\<newline>Status code: 404'') \<and>
   sent (get_metadata demo_transport demo_client)
     = [hd (sent (get_metadata demo_transport demo_client))] \<and>
   demo_transport (hd (sent (get_metadata demo_transport demo_client)))
     = Inr \<lparr>status_code = 200, json = Inr ()\<rparr> \<and>
   result (get_metadata demo_transport demo_client) = Inr ()"
proof -
  have v: "valid_pct PNone"
    by (simp add: valid_pct_def)
  have s1: "sent (get_metadata not_found_transport demo_client)
     = [hd (sent (get_metadata not_found_transport demo_client))]"
    by (simp add: get_metadata_run demo_client_fields Let_def)
  have s2: "sent (get_lastdata not_found_transport PNone demo_client)
     = [hd (sent (get_lastdata not_found_transport PNone demo_client))]"
    by (simp add: get_lastdata_run v demo_client_fields Let_def)
  have s3: "sent (get_timeseries not_found_transport PNone demo_client)
     = [hd (sent (get_timeseries not_found_transport PNone demo_client))]"
    by (simp add: get_timeseries_run v demo_client_fields Let_def)
  have s4: "sent (get_timeseries_range not_found_transport (PStr ''2020-01-01'')
             (PStr ''2020-12-31'') PNone demo_client)
     = [hd (sent (get_timeseries_range not_found_transport (PStr ''2020-01-01'')
                    (PStr ''2020-12-31'') PNone demo_client))]"
    by (simp add: get_timeseries_range_run v demo_client_fields Let_def)
  have s5: "sent (get_metadata demo_transport demo_client)
     = [hd (sent (get_metadata demo_transport demo_client))]"
    by (simp add: get_metadata_run demo_client_fields Let_def)
  have t: "not_found_transport r = Inr \<lparr>status_code = 404, json = Inr ()\<rparr>"
    "demo_transport r = Inr \<lparr>status_code = 200, json = Inr ()\<rparr>" for r
    by (simp_all add: not_found_transport_def demo_transport_def mock_transport_def)
  have m: "checked_result status_message \<lparr>status_code = 404, json = Inr ()\<rparr>
             = Inl (RequestException
         ''Something go wrong with the request. Review the token or series id.\<newline>Status code: 404'')"
    "checked_result status_message_range \<lparr>status_code = 404, json = Inr ()\<rparr>
             = Inl (RequestException
         ''Something go wrong with the request. Review the token, series id or date format.\<newline>Status code: 404'')"
    "checked_result status_message \<lparr>status_code = 200, json = Inr ()\<rparr> = Inr ()"
    by (simp_all add: checked_result_def status_message_def status_message_range_def
          str_int_examples)
  note a = status_check [of not_found_transport demo_client
        "hd (sent (get_metadata not_found_transport demo_client))"
        "\<lparr>status_code = 404, json = Inr ()\<rparr>" PNone "PStr ''2020-01-01''" "PStr ''2020-12-31''"]
  note b = status_check [of not_found_transport demo_client
        "hd (sent (get_lastdata not_found_transport PNone demo_client))"
        "\<lparr>status_code = 404, json = Inr ()\<rparr>" PNone "PStr ''2020-01-01''" "PStr ''2020-12-31''"]
  note c = status_check [of not_found_transport demo_client
        "hd (sent (get_timeseries not_found_transport PNone demo_client))"
        "\<lparr>status_code = 404, json = Inr ()\<rparr>" PNone "PStr ''2020-01-01''" "PStr ''2020-12-31''"]
  note d = status_check [of not_found_transport demo_client
        "hd (sent (get_timeseries_range not_found_transport (PStr ''2020-01-01'')
                    (PStr ''2020-12-31'') PNone demo_client))"
        "\<lparr>status_code = 404, json = Inr ()\<rparr>" PNone "PStr ''2020-01-01''" "PStr ''2020-12-31''"]
  note e = status_check [of demo_transport demo_client
        "hd (sent (get_metadata demo_transport demo_client))"
        "\<lparr>status_code = 200, json = Inr ()\<rparr>" PNone "PStr ''2020-01-01''" "PStr ''2020-12-31''"]
  have r1: "result (get_metadata not_found_transport demo_client)
              = checked_result status_message \<lparr>status_code = 404, json = Inr ()\<rparr>"
    using a s1 t by blast
  have r2: "result (get_lastdata not_found_transport PNone demo_client)
              = checked_result status_message \<lparr>status_code = 404, json = Inr ()\<rparr>"
    using b s2 t by blast
  have r3: "result (get_timeseries not_found_transport PNone demo_client)
              = checked_result status_message \<lparr>status_code = 404, json = Inr ()\<rparr>"
    using c s3 t by blast
  have r4: "result (get_timeseries_range not_found_transport (PStr ''2020-01-01'')
              (PStr ''2020-12-31'') PNone demo_client)
              = checked_result status_message_range \<lparr>status_code = 404, json = Inr ()\<rparr>"
    using d s4 t by blast
  have r5: "result (get_metadata demo_transport demo_client)
              = checked_result status_message \<lparr>status_code = 200, json = Inr ()\<rparr>"
    using e s5 t by blast
  show ?thesis
    unfolding r1 r2 r3 r4 r5 m
    using s1 s2 s3 s4 s5 t by simp
qed

section \<open>The invariant of the params mapping\<close>

text \<open>
  Claim C9. After every successful construction the params mapping has \<open>locale\<close> set to
  \<open>en\<close> or \<open>es\<close> and \<open>incremento\<close> absent, \<open>None\<close> or one of the three modes; every
  public method, called with any arguments, keeps this (whether it returns or raises).
\<close>

theorem params_invariant:
  "(init tok ids lang = Inr c0 \<longrightarrow> params_inv (params c0)) \<and>
   (params_inv (params c) \<longrightarrow>
      params_inv (params (snd (set_token u c))) \<and>
      params_inv (params (snd (set_id_series u c))) \<and>
      params_inv (params (snd (append_id_series u c))) \<and>
      params_inv (params (state (get_metadata tr c))) \<and>
      params_inv (params (state (get_lastdata tr u c))) \<and>
      params_inv (params (state (get_timeseries tr u c))) \<and>
      params_inv (params (state (get_timeseries_range tr a b u c))))"
proof (intro conjI impI)
  assume "init tok ids lang = Inr c0"
  then show "params_inv (params c0)"
    using init_form [of tok ids lang c0] by (auto simp: params_inv_def)
next
  assume p: "params_inv (params c)"
  have n: "valid_pct PNone" by (simp add: valid_pct_def)
  show "params_inv (params (snd (set_token u c)))"
    using p by (cases u) (simp_all add: set_token_def)
  show "params_inv (params (snd (set_id_series u c)))"
    using p by (cases u) (simp_all add: set_id_series_def split: sum.splits)
  show "params_inv (params (snd (append_id_series u c)))"
    using p by (cases u) (auto simp: append_id_series_def split: sum.splits option.splits)
  show "params_inv (params (state (get_metadata tr c)))"
    using p n by (simp add: state_get_metadata params_inv_update)
  show "params_inv (params (state (get_lastdata tr u c)))"
    using p by (simp add: state_get_lastdata params_inv_update)
  show "params_inv (params (state (get_timeseries tr u c)))"
    using p by (simp add: state_get_timeseries params_inv_update)
  show "params_inv (params (state (get_timeseries_range tr a b u c)))"
    using p by (simp add: state_get_timeseries_range params_inv_update)
qed

theorem params_invariant_witness:
  "init (PStr ''old'') (PList [PStr ''A'']) (PStr ''en'') = Inr demo_client \<and>
   params_inv (params demo_client) \<and>
   params_inv (params (snd (set_token (PStr ''new'') demo_client))) \<and>
   params_inv (params (state (get_metadata demo_transport demo_client))) \<and>
   params_inv (params (state (get_lastdata demo_transport (PStr ''PorcAnual'') demo_client))) \<and>
   params_inv (params (state (get_timeseries_range demo_transport (PStr ''2020-01-01'')
                                (PStr ''2020-12-31'') (PStr ''PorcObsAnt'') demo_client))) \<and>
   params (state (get_lastdata demo_transport (PStr ''PorcAnual'') demo_client)) ''incremento''
     = Some (PStr ''PorcAnual'') \<and>
   params (state (get_lastdata demo_transport (PStr ''PorcAnual'') demo_client)) ''locale''
     = Some (PStr ''en'')"
proof -
  have v: "valid_pct (PStr ''PorcAnual'')"
    by (simp add: valid_pct_def)
  show ?thesis
    using demo_client_init
      params_invariant [of "PStr ''old''" "PList [PStr ''A'']" "PStr ''en''" demo_client
        demo_client "PStr ''new''" demo_transport "PStr ''2020-01-01''" "PStr ''2020-12-31''"]
      params_invariant [of "PStr ''old''" "PList [PStr ''A'']" "PStr ''en''" demo_client
        demo_client "PStr ''PorcAnual''" demo_transport "PStr ''2020-01-01''" "PStr ''2020-12-31''"]
      params_invariant [of "PStr ''old''" "PList [PStr ''A'']" "PStr ''en''" demo_client
        demo_client "PStr ''PorcObsAnt''" demo_transport "PStr ''2020-01-01''" "PStr ''2020-12-31''"]
    by (simp add: state_get_lastdata v demo_client_fields)
qed

end
